theory Spec2Isabelle
  imports Complex_Main
begin

section \<open>Polling policies\<close>

text \<open>
  Every waiter strategy overrides two methods of \<open>BaseWaiterStrategy\<close>:
  \<open>calculate_next_interval(elapsed_time, check_count)\<close> and
  \<open>should_timeout(elapsed_time, check_count)\<close>. Python floats are modelled as reals,
  the check counter as an integer. The instance attributes a strategy sets in
  \<open>__init__\<close> are the fields of a record; the constructor is the \<open>_init\<close> constant.
\<close>

record fixed_strategy =
  polling_interval :: real
  timeout_seconds :: real

definition BaselineStrategy_init :: fixed_strategy where
  "BaselineStrategy_init = \<lparr>polling_interval = 3, timeout_seconds = 180\<rparr>"

definition ExtendedTimeoutStrategy_init :: fixed_strategy where
  "ExtendedTimeoutStrategy_init = \<lparr>polling_interval = 3, timeout_seconds = 600\<rparr>"

text \<open>\<open>BaselineStrategy\<close> and \<open>ExtendedTimeoutStrategy\<close> have the same two methods.\<close>

definition Fixed_calculate_next_interval :: "fixed_strategy \<Rightarrow> real \<Rightarrow> int \<Rightarrow> real" where
  "Fixed_calculate_next_interval s elapsed_time check_count = polling_interval s"

definition Fixed_should_timeout :: "fixed_strategy \<Rightarrow> real \<Rightarrow> int \<Rightarrow> bool" where
  "Fixed_should_timeout s elapsed_time check_count = (elapsed_time \<ge> timeout_seconds s)"

definition Hybrid_timeout_seconds :: real where
  "Hybrid_timeout_seconds = 600"

definition Hybrid_calculate_next_interval :: "real \<Rightarrow> int \<Rightarrow> real" where
  "Hybrid_calculate_next_interval elapsed_time check_count =
     (if elapsed_time < 30 then 2
      else if elapsed_time < 60 then 4
      else if elapsed_time < 120 then 8
      else 15)"

definition Hybrid_should_timeout :: "real \<Rightarrow> int \<Rightarrow> bool" where
  "Hybrid_should_timeout elapsed_time check_count = (elapsed_time \<ge> Hybrid_timeout_seconds)"

subsection \<open>The adaptive strategy\<close>

record adaptive_strategy =
  historical_times :: "real list"
  min_timeout :: real
  max_timeout :: real
  history_size :: nat

definition AdaptiveStrategy_init :: adaptive_strategy where
  "AdaptiveStrategy_init =
     \<lparr>historical_times = [], min_timeout = 300, max_timeout = 600, history_size = 20\<rparr>"

definition Adaptive_calculate_next_interval :: "real \<Rightarrow> int \<Rightarrow> real" where
  "Adaptive_calculate_next_interval elapsed_time check_count =
     (if elapsed_time < 30 then 2
      else if elapsed_time < 60 then 4
      else if elapsed_time < 120 then 8
      else if elapsed_time < 180 then 10
      else 15)"

text \<open>
  \<open>statistics.mean\<close> and \<open>statistics.stdev\<close> of the Python standard library: the
  arithmetic mean, and the square root of the sample variance (divisor \<open>n - 1\<close>). They
  raise \<open>StatisticsError\<close> on fewer than one, respectively two, data points;
  \<open>should_timeout\<close> calls them only behind its guard \<open>len(historical_times) >= 3\<close>.
\<close>

definition statistics_mean :: "real list \<Rightarrow> real" where
  "statistics_mean xs = sum_list xs / real (length xs)"

definition statistics_stdev :: "real list \<Rightarrow> real" where
  "statistics_stdev xs =
     sqrt (sum_list (map (\<lambda>x. (x - statistics_mean xs)\<^sup>2) xs) / real (length xs - 1))"

text \<open>The local variable \<open>timeout\<close> of \<open>AdaptiveStrategy.should_timeout\<close>.\<close>

definition Adaptive_timeout :: "adaptive_strategy \<Rightarrow> real" where
  "Adaptive_timeout a =
     (if length (historical_times a) < 3 then min_timeout a
      else let mean = statistics_mean (historical_times a);
               stdev = statistics_stdev (historical_times a);
               timeout = mean + 3 * stdev
           in max (min_timeout a) (min timeout (max_timeout a)))"

definition Adaptive_should_timeout :: "adaptive_strategy \<Rightarrow> real \<Rightarrow> int \<Rightarrow> bool" where
  "Adaptive_should_timeout a elapsed_time check_count = (elapsed_time \<ge> Adaptive_timeout a)"

text \<open>The specification's timeout rule, in its own words: a clamp between two bounds.\<close>

definition clamp :: "real \<Rightarrow> real \<Rightarrow> real \<Rightarrow> real" where
  "clamp x lo hi = (if x < lo then lo else if hi < x then hi else x)"

definition spec_adaptive_timeout :: "real list \<Rightarrow> real" where
  "spec_adaptive_timeout history =
     (if length history < 3 then 300
      else clamp (statistics_mean history + 3 * statistics_stdev history) 300 600)"

section \<open>Python values, the remote store and the clock\<close>

text \<open>
  A result of \<open>run_single_test\<close> is a Python dictionary whose key set differs between
  the three return statements, so it is modelled as an association list in insertion
  order from key to value; \<open>map_of d k\<close> reads \<open>d[k]\<close>, and \<open>None\<close> there means
  the key is absent. \<open>PTime t\<close> stands for the text \<open>datetime.now().isoformat()\<close>
  produces when the clock reads \<open>t\<close>.
\<close>

datatype pyval =
    PNone
  | PBool bool
  | PInt int
  | PFloat real
  | PStr string
  | PTime real
  | PList "pyval list"
  | PDict "(string \<times> pyval) list"

type_synonym pydict = "(string \<times> pyval) list"

text \<open>Exceptions that leave a modelled function.\<close>

datatype exn =
    ValueError
  | TypeError
  | AttributeError
  | KeyError string
  | ClientErrorExn string
  | OtherExn string

text \<open>
  One lifecycle rule, as \<open>generate_lifecycle_config\<close> and \<open>lifecycle_config\<close> build it
  and as the store returns it: \<open>Prefix\<close> is the entry of the nested \<open>Filter\<close>
  dictionary, \<open>Days\<close> that of \<open>Expiration\<close>. A key the store leaves out is \<open>None\<close>
  (what \<open>dict.get\<close> returns). A lifecycle configuration is the list under \<open>'Rules'\<close>.
\<close>

record rule =
  ID :: "string option"
  Status :: "string option"
  Prefix :: "string option"
  Days :: "int option"

text \<open>
  What \<open>get_bucket_lifecycle_configuration\<close> does: it answers with a response (whose
  \<open>'Rules'\<close> key may be missing), raises a \<open>ClientError\<close> with an error code
  (\<open>NoSuchLifecycleConfiguration\<close> is one), or raises some other exception.
\<close>

datatype response =
    Reply "rule list option"
  | ClientError string
  | OtherException string

text \<open>
  The world a probe runs in. The clock advances by a remote call's duration and by the
  length of a sleep, and nowhere else. The \<open>k\<close>-th PUT and the \<open>k\<close>-th GET behave as
  \<open>put_reply k\<close> and \<open>get_reply k\<close> say (duration, outcome; a PUT's outcome is the text
  of the exception it raises, if any); \<open>random_stream k\<close> is what the \<open>k\<close>-th call of
  \<open>random.random()\<close> returns.
\<close>

record world =
  now :: real
  put_reply :: "nat \<Rightarrow> real \<times> string option"
  get_reply :: "nat \<Rightarrow> real \<times> response"
  random_stream :: "nat \<Rightarrow> real"
  puts_issued :: nat
  gets_issued :: nat
  randoms_drawn :: nat

definition s3_put :: "world \<Rightarrow> string option \<times> world" where
  "s3_put w =
     (case put_reply w (puts_issued w) of
        (d, e) \<Rightarrow> (e, w\<lparr>now := now w + d, puts_issued := Suc (puts_issued w)\<rparr>))"

definition s3_get :: "world \<Rightarrow> response \<times> world" where
  "s3_get w =
     (case get_reply w (gets_issued w) of
        (d, r) \<Rightarrow> (r, w\<lparr>now := now w + d, gets_issued := Suc (gets_issued w)\<rparr>))"

definition sleep :: "real \<Rightarrow> world \<Rightarrow> world" where
  "sleep d w = w\<lparr>now := now w + d\<rparr>"

definition random_random :: "world \<Rightarrow> real \<times> world" where
  "random_random w = (random_stream w (randoms_drawn w), w\<lparr>randoms_drawn := Suc (randoms_drawn w)\<rparr>)"

text \<open>\<open>random.uniform(a, b)\<close> is \<open>a + (b - a) * random()\<close>.\<close>

definition random_uniform :: "real \<Rightarrow> real \<Rightarrow> world \<Rightarrow> real \<times> world" where
  "random_uniform a b w = (case random_random w of (u, w') \<Rightarrow> (a + (b - a) * u, w'))"

subsection \<open>Decimal text of an integer\<close>

definition digit_char :: "nat \<Rightarrow> char" where
  "digit_char d =
     (if d = 0 then CHR ''0'' else if d = 1 then CHR ''1'' else if d = 2 then CHR ''2''
      else if d = 3 then CHR ''3'' else if d = 4 then CHR ''4'' else if d = 5 then CHR ''5''
      else if d = 6 then CHR ''6'' else if d = 7 then CHR ''7'' else if d = 8 then CHR ''8''
      else CHR ''9'')"

fun str_nat :: "nat \<Rightarrow> string" where
  "str_nat n = (if n < 10 then [digit_char n] else str_nat (n div 10) @ [digit_char (n mod 10)])"

declare str_nat.simps [simp del]

definition str_int :: "int \<Rightarrow> string" where
  "str_int i = (if i < 0 then CHR ''-'' # str_nat (nat (- i)) else str_nat (nat i))"

section \<open>The waiter framework\<close>

definition generate_lifecycle_config :: "string \<Rightarrow> int \<Rightarrow> rule list" where
  "generate_lifecycle_config strategy_name test_id =
     [\<lparr>ID = Some (strategy_name @ ''-rule-'' @ str_int test_id),
       Status = Some ''Enabled'',
       Prefix = Some (strategy_name @ ''-'' @ str_int test_id @ ''/''),
       Days = Some 7\<rparr>]"

text \<open>The loop over \<open>zip(current_rules, expected_rules)\<close>, with its two early returns.\<close>

fun rules_match :: "(rule \<times> rule) list \<Rightarrow> bool" where
  "rules_match [] = True"
| "rules_match ((current, expected) # rest) =
     (if ID current \<noteq> ID expected then False
      else if Status current \<noteq> Status expected then False
      else rules_match rest)"

text \<open>A GET that fails: it raises instead of answering.\<close>

fun is_failure :: "response \<Rightarrow> bool" where
  "is_failure (Reply rules) = False"
| "is_failure (ClientError code) = True"
| "is_failure (OtherException msg) = True"

text \<open>
  The exception classes a boto3 S3 client offers as attributes of \<open>client.exceptions\<close>:
  \<open>ClientError\<close> and the error shapes of the S3 service model (later releases add a few;
  none of them is \<open>NoSuchLifecycleConfiguration\<close>). Reading any other attribute raises
  \<open>AttributeError\<close>.
\<close>

definition s3_client_exception_names :: "string list" where
  "s3_client_exception_names =
     [''ClientError'', ''BucketAlreadyExists'', ''BucketAlreadyOwnedByYou'',
      ''InvalidObjectState'', ''NoSuchBucket'', ''NoSuchKey'', ''NoSuchUpload'',
      ''ObjectAlreadyInActiveTierError'', ''ObjectNotInActiveTierError'']"

text \<open>
  \<open>BaseWaiterStrategy.check_configuration_match\<close>. When the GET raises, Python
  evaluates the expression of the first \<open>except\<close> clause,
  \<open>self.s3_client.exceptions.NoSuchLifecycleConfiguration\<close>, before it can match the
  exception against it; the client has no such attribute, so that evaluation raises
  \<open>AttributeError\<close>, which the second clause of the same \<open>try\<close> does not catch and
  which leaves the method. Were the class there, both clauses would return \<open>False\<close>
  (the second one after printing the error; printing is not modelled).
\<close>

definition Base_check_configuration_match ::
    "rule list \<Rightarrow> world \<Rightarrow> (exn + bool) \<times> world" where
  "Base_check_configuration_match expected_rules w =
     (case s3_get w of
        (Reply rules, w') \<Rightarrow>
          (let current_rules = (case rules of None \<Rightarrow> [] | Some rs \<Rightarrow> rs) in
           if length current_rules \<noteq> length expected_rules then (Inr False, w')
           else (Inr (rules_match (zip current_rules expected_rules)), w'))
      | (ClientError code, w') \<Rightarrow>
          (if ''NoSuchLifecycleConfiguration'' \<notin> set s3_client_exception_names
           then (Inl AttributeError, w')
           else if code = ''NoSuchLifecycleConfiguration'' then (Inr False, w')
           else (Inr False, w'))
      | (OtherException msg, w') \<Rightarrow>
          (if ''NoSuchLifecycleConfiguration'' \<notin> set s3_client_exception_names
           then (Inl AttributeError, w')
           else (Inr False, w')))"

subsection \<open>The delay simulator\<close>

definition generate_propagation_delay :: "world \<Rightarrow> real \<times> world" where
  "generate_propagation_delay w =
     (case random_random w of
        (rand, w') \<Rightarrow>
          if rand < 0.50 then random_uniform 0 48 w'
          else if rand < 0.75 then random_uniform 48 82 w'
          else if rand < 0.85 then random_uniform 82 120 w'
          else if rand < 0.90 then random_uniform 120 142 w'
          else if rand < 0.95 then random_uniform 142 156 w'
          else if rand < 0.99 then random_uniform 156 234 w'
          else random_uniform 234 312 w')"

text \<open>
  The simulator's instance state: the flag \<open>enable_simulation\<close>, and the attributes
  \<open>_simulated_delay\<close> and \<open>_propagation_start\<close>, which are set together on the first
  check and deleted together by \<open>run_single_test\<close>; \<open>sim_state = None\<close> means the
  instance has neither, \<open>Some (delay, start)\<close> gives both.
\<close>

record simulation =
  enable_simulation :: bool
  sim_state :: "(real \<times> real) option"

definition Simulated_check_configuration_match ::
    "rule list \<Rightarrow> simulation \<Rightarrow> world \<Rightarrow> (exn + bool) \<times> simulation \<times> world" where
  "Simulated_check_configuration_match expected_rules sim w =
     (if \<not> enable_simulation sim then
        (case Base_check_configuration_match expected_rules w of (m, w') \<Rightarrow> (m, sim, w'))
      else
        (case (case sim_state sim of
                 None \<Rightarrow> (case generate_propagation_delay w of
                            (d, w') \<Rightarrow> (d, now w', sim\<lparr>sim_state := Some (d, now w')\<rparr>, w'))
               | Some (d, start) \<Rightarrow> (d, start, sim, w)) of
           (simulated_delay, propagation_start, sim1, w1) \<Rightarrow>
             (let elapsed = now w1 - propagation_start in
              if elapsed \<ge> simulated_delay then
                (case Base_check_configuration_match expected_rules w1 of
                   (m, w2) \<Rightarrow> (m, sim1, w2))
              else (Inr False, sim1, w1))))"

subsection \<open>One probe iteration\<close>

text \<open>
  The two abstract methods of a strategy, as the instance running the probe resolves
  them.
\<close>

record policy =
  calculate_next_interval :: "real \<Rightarrow> int \<Rightarrow> real"
  should_timeout :: "real \<Rightarrow> int \<Rightarrow> bool"

definition Baseline_policy :: "fixed_strategy \<Rightarrow> policy" where
  "Baseline_policy s =
     \<lparr>calculate_next_interval = Fixed_calculate_next_interval s,
      should_timeout = Fixed_should_timeout s\<rparr>"

definition Hybrid_policy :: policy where
  "Hybrid_policy =
     \<lparr>calculate_next_interval = Hybrid_calculate_next_interval,
      should_timeout = Hybrid_should_timeout\<rparr>"

definition Adaptive_policy :: "adaptive_strategy \<Rightarrow> policy" where
  "Adaptive_policy a =
     \<lparr>calculate_next_interval = Adaptive_calculate_next_interval,
      should_timeout = Adaptive_should_timeout a\<rparr>"

text \<open>The local variables the polling loop updates.\<close>

record probe =
  check_count :: int
  api_calls :: int
  polling_history :: "pyval list"

text \<open>
  The \<open>while True\<close> loop of \<open>BaseWaiterStrategy.run_single_test\<close>. It need not end (a
  policy may never time out while the store never matches), so the loop carries fuel:
  one unit per pass, \<open>None\<close> when it runs out. \<open>self.check_configuration_match\<close> is the
  simulator's override, as every strategy class of the repository derives from
  \<open>SimulatedBaseWaiterStrategy\<close>; with \<open>enable_simulation = False\<close> it is the base
  method. An exception of the check is not caught and leaves the loop.
  \<open>time.sleep\<close> raises \<open>ValueError\<close> on a negative length.
\<close>

fun poll_loop ::
    "nat \<Rightarrow> policy \<Rightarrow> int \<Rightarrow> rule list \<Rightarrow> real \<Rightarrow> real \<Rightarrow> probe \<Rightarrow> simulation \<Rightarrow> world
      \<Rightarrow> (exn + pydict) option \<times> simulation \<times> world" where
  "poll_loop 0 pol test_id config put_duration propagation_start st sim w = (None, sim, w)"
| "poll_loop (Suc fuel) pol test_id config put_duration propagation_start st sim w =
     (let elapsed = now w - propagation_start in
      if should_timeout pol elapsed (check_count st) then
        (Some (Inr
           [(''test_id'', PInt test_id),
            (''success'', PBool False),
            (''error'', PStr ''Timeout''),
            (''put_duration'', PFloat put_duration),
            (''propagation_time'', PFloat elapsed),
            (''check_count'', PInt (check_count st)),
            (''api_calls'', PInt (api_calls st)),
            (''polling_history'', PList (polling_history st)),
            (''timestamp'', PTime (now w))]), sim, w)
      else
        (let interval = calculate_next_interval pol elapsed (check_count st) in
         if interval < 0 then (Some (Inl ValueError), sim, w)
         else
           (let w1 = sleep interval w;
                check_count' = check_count st + 1;
                api_calls' = api_calls st + 1;
                get_start = now w1
            in case Simulated_check_configuration_match config sim w1 of
                 (Inl e, sim2, w2) \<Rightarrow> (Some (Inl e), sim2, w2)
               | (Inr match, sim2, w2) \<Rightarrow>
                   (let get_end = now w2;
                        get_duration = get_end - get_start;
                        polling_history' = polling_history st @
                          [PDict [(''attempt'', PInt check_count'),
                                  (''elapsed_at_check'', PFloat (now w2 - propagation_start)),
                                  (''get_duration'', PFloat get_duration),
                                  (''matched'', PBool match)]]
                    in if match then
                         (let total_time = now w2 - propagation_start in
                          (Some (Inr
                             [(''test_id'', PInt test_id),
                              (''success'', PBool True),
                              (''put_duration'', PFloat put_duration),
                              (''propagation_time'', PFloat total_time),
                              (''check_count'', PInt check_count'),
                              (''api_calls'', PInt api_calls'),
                              (''polling_history'', PList polling_history'),
                              (''timestamp'', PTime (now w2))]), sim2, w2))
                       else
                         poll_loop fuel pol test_id config put_duration propagation_start
                           \<lparr>check_count = check_count', api_calls = api_calls',
                            polling_history = polling_history'\<rparr> sim2 w2))))"

text \<open>\<open>BaseWaiterStrategy.run_single_test\<close>: the PUT, then the polling loop.\<close>

definition Base_run_single_test ::
    "nat \<Rightarrow> policy \<Rightarrow> string \<Rightarrow> int \<Rightarrow> simulation \<Rightarrow> world
      \<Rightarrow> (exn + pydict) option \<times> simulation \<times> world" where
  "Base_run_single_test fuel pol strategy_name test_id sim w =
     (let config = generate_lifecycle_config strategy_name test_id;
          put_start = now w
      in case s3_put w of
           (Some e, w1) \<Rightarrow>
             (Some (Inr
                [(''test_id'', PInt test_id),
                 (''success'', PBool False),
                 (''error'', PStr (''PUT failed: '' @ e)),
                 (''timestamp'', PTime (now w1))]), sim, w1)
         | (None, w1) \<Rightarrow>
             (let put_end = now w1;
                  put_duration = put_end - put_start;
                  propagation_start = now w1
              in poll_loop fuel pol test_id config put_duration propagation_start
                   \<lparr>check_count = 0, api_calls = 1, polling_history = []\<rparr> sim w1))"

text \<open>
  \<open>SimulatedBaseWaiterStrategy.run_single_test\<close> deletes the simulator's two attributes
  and runs the base method.
\<close>

definition Simulated_run_single_test ::
    "nat \<Rightarrow> policy \<Rightarrow> string \<Rightarrow> int \<Rightarrow> simulation \<Rightarrow> world
      \<Rightarrow> (exn + pydict) option \<times> simulation \<times> world" where
  "Simulated_run_single_test fuel pol strategy_name test_id sim w =
     Base_run_single_test fuel pol strategy_name test_id (sim\<lparr>sim_state := None\<rparr>) w"

subsection \<open>The adaptive strategy's probe\<close>

text \<open>Python's truth value of what a result stores under \<open>'success'\<close>.\<close>

fun truthy :: "pyval \<Rightarrow> bool" where
  "truthy PNone = False"
| "truthy (PBool b) = b"
| "truthy (PInt i) = (i \<noteq> 0)"
| "truthy (PFloat x) = (x \<noteq> 0)"
| "truthy (PStr s) = (s \<noteq> [])"
| "truthy (PTime t) = True"
| "truthy (PList xs) = (xs \<noteq> [])"
| "truthy (PDict d) = (d \<noteq> [])"

text \<open>
  \<open>AdaptiveStrategy.run_single_test\<close>: the inherited probe, then the update of the
  history window. Reading a missing key raises \<open>KeyError\<close>. The window holds floats;
  the branch for a \<open>propagation_time\<close> that is not a float stands for a value
  \<open>statistics.mean\<close> could not average (the probe never stores one).
\<close>

definition Adaptive_run_single_test ::
    "nat \<Rightarrow> adaptive_strategy \<Rightarrow> string \<Rightarrow> int \<Rightarrow> simulation \<Rightarrow> world
      \<Rightarrow> (exn + pydict) option \<times> adaptive_strategy \<times> simulation \<times> world" where
  "Adaptive_run_single_test fuel a strategy_name test_id sim w =
     (case Simulated_run_single_test fuel (Adaptive_policy a) strategy_name test_id sim w of
        (None, sim', w') \<Rightarrow> (None, a, sim', w')
      | (Some (Inl e), sim', w') \<Rightarrow> (Some (Inl e), a, sim', w')
      | (Some (Inr result), sim', w') \<Rightarrow>
          (case map_of result ''success'' of
             None \<Rightarrow> (Some (Inl (KeyError ''success'')), a, sim', w')
           | Some s \<Rightarrow>
               if truthy s then
                 (case map_of result ''propagation_time'' of
                    None \<Rightarrow> (Some (Inl (KeyError ''propagation_time'')), a, sim', w')
                  | Some (PFloat t) \<Rightarrow>
                      (let appended = historical_times a @ [t];
                           window = (if length appended > history_size a then tl appended
                                     else appended)
                       in (Some (Inr result), a\<lparr>historical_times := window\<rparr>, sim', w'))
                  | Some other \<Rightarrow> (Some (Inl TypeError), a, sim', w'))
               else (Some (Inr result), a, sim', w')))"

text \<open>
  The loop of \<open>run_test_suite\<close> for the adaptive strategy, over the test ids
  \<open>range(num_tests)\<close> still to run: each result is appended to \<open>self.results\<close>, and
  the loop sleeps two seconds after each test. An exception or a probe that does not
  return ends it.
\<close>

fun Adaptive_run_tests ::
    "nat \<Rightarrow> string \<Rightarrow> int list \<Rightarrow> pydict list \<Rightarrow> adaptive_strategy \<Rightarrow> simulation \<Rightarrow> world
      \<Rightarrow> (exn + pydict list) option \<times> adaptive_strategy \<times> simulation \<times> world" where
  "Adaptive_run_tests fuel strategy_name [] results a sim w = (Some (Inr results), a, sim, w)"
| "Adaptive_run_tests fuel strategy_name (i # rest) results a sim w =
     (case Adaptive_run_single_test fuel a strategy_name i sim w of
        (None, a', sim', w') \<Rightarrow> (None, a', sim', w')
      | (Some (Inl e), a', sim', w') \<Rightarrow> (Some (Inl e), a', sim', w')
      | (Some (Inr result), a', sim', w') \<Rightarrow>
          Adaptive_run_tests fuel strategy_name rest (results @ [result]) a' sim' (sleep 2 w'))"

subsection \<open>Coverage analysis\<close>

definition distribution :: "(string \<times> real) list" where
  "distribution =
     [(''P50'', 48), (''P75'', 82), (''P85'', 120), (''P90'', 142), (''P95'', 156),
      (''P99'', 234), (''Max'', 312)]"

text \<open>
  One pass of the loop over \<open>sorted(distribution.items(), key=lambda x: x[1])\<close>, on the
  pair of local variables \<open>coverage_percentile\<close> and \<open>estimated_success_rate\<close>.
\<close>

definition coverage_step ::
    "real \<Rightarrow> string option \<times> real option \<Rightarrow> string \<times> real \<Rightarrow> string option \<times> real option" where
  "coverage_step timeout acc item =
     (case (acc, item) of
        ((coverage_percentile, estimated_success_rate), (percentile, time_value)) \<Rightarrow>
          if timeout \<ge> time_value then
            (Some percentile,
             if percentile = ''P50'' then Some 50.0
             else if percentile = ''P75'' then Some 75.0
             else if percentile = ''P85'' then Some 85.0
             else if percentile = ''P90'' then Some 90.0
             else if percentile = ''P95'' then Some 95.0
             else if percentile = ''P99'' then Some 99.0
             else if percentile = ''Max'' then Some 99.9
             else estimated_success_rate)
          else (coverage_percentile, estimated_success_rate))"

text \<open>
  What \<open>_display_coverage_analysis\<close> prints: the timeout it used, the text after
  \<open>Coverage:\<close>, the expected success rate (when a bucket was found), and which of its
  two warnings it printed.
\<close>

record coverage_report =
  strategy_timeout :: real
  coverage :: string
  expected_success :: "real option"
  low_coverage_warning :: bool
  too_short_warning :: bool

text \<open>
  The arguments are the instance attributes \<open>timeout_seconds\<close> and \<open>max_timeout\<close>, each
  \<open>None\<close> when the instance has no such attribute. The branch \<open>if coverage_percentile\<close>
  is taken for a label that is neither \<open>None\<close> nor the empty string; formatting a rate
  that is \<open>None\<close> raises \<open>TypeError\<close>.
\<close>

definition display_coverage_analysis :: "real option \<Rightarrow> real option \<Rightarrow> exn + coverage_report" where
  "display_coverage_analysis timeout_seconds_attr max_timeout_attr =
     (let timeout = (case timeout_seconds_attr of
                       Some t \<Rightarrow> t
                     | None \<Rightarrow> (case max_timeout_attr of Some m \<Rightarrow> m | None \<Rightarrow> 600));
          below = \<lparr>strategy_timeout = timeout,
                   coverage = ''Below P50'',
                   expected_success = None,
                   low_coverage_warning = False,
                   too_short_warning = True\<rparr>
      in case foldl (coverage_step timeout) (None, None) (sort_key snd distribution) of
           (None, estimated_success_rate) \<Rightarrow> Inr below
         | (Some coverage_percentile, estimated_success_rate) \<Rightarrow>
             if coverage_percentile \<noteq> [] then
               (case estimated_success_rate of
                  None \<Rightarrow> Inl TypeError
                | Some rate \<Rightarrow>
                    Inr \<lparr>strategy_timeout = timeout,
                         coverage = coverage_percentile,
                         expected_success = Some rate,
                         low_coverage_warning = (rate < 95.0),
                         too_short_warning = False\<rparr>)
             else Inr below)"

text \<open>
  The specification's table from a percentile label to the success rate it stands for.
\<close>

definition spec_success_rate :: "(string \<times> real) list" where
  "spec_success_rate =
     [(''P50'', 50.0), (''P75'', 75.0), (''P85'', 85.0), (''P90'', 90.0), (''P95'', 95.0),
      (''P99'', 99.0), (''Max'', 99.9)]"

text \<open>
  The timeout \<open>_display_coverage_analysis\<close> reads from the instance: \<open>timeout_seconds\<close>
  if the instance has it, else \<open>max_timeout\<close>, else 600.
\<close>

definition strategy_timeout_of :: "real option \<Rightarrow> real option \<Rightarrow> real" where
  "strategy_timeout_of timeout_seconds_attr max_timeout_attr =
     (case timeout_seconds_attr of
        Some t \<Rightarrow> t
      | None \<Rightarrow> (case max_timeout_attr of Some m \<Rightarrow> m | None \<Rightarrow> 600))"

text \<open>The report of a run that found a bucket.\<close>

definition covered :: "real \<Rightarrow> string \<Rightarrow> real \<Rightarrow> exn + coverage_report" where
  "covered timeout label rate =
     Inr \<lparr>strategy_timeout = timeout, coverage = label, expected_success = Some rate,
          low_coverage_warning = (rate < 95.0), too_short_warning = False\<rparr>"

section \<open>The standalone control-plane test\<close>

text \<open>
  \<open>equal_lifecycle\<close> compares the JSON texts of two configurations with sorted keys,
  that is, their contents whatever the order of the keys.
\<close>

definition equal_lifecycle :: "rule list \<Rightarrow> rule list \<Rightarrow> bool" where
  "equal_lifecycle a b = (a = b)"

definition lifecycle_config :: "int \<Rightarrow> string \<Rightarrow> rule list" where
  "lifecycle_config days rule_id =
     [\<lparr>ID = Some rule_id, Status = Some ''Enabled'', Prefix = Some [], Days = Some days\<rparr>]"

definition EARLY_DENSE_SECONDS :: real where
  "EARLY_DENSE_SECONDS = 30"

definition LATE_INTERVAL_SECONDS :: real where
  "LATE_INTERVAL_SECONDS = 3"


text \<open>The dictionary both return statements of \<open>poll_until_match\<close> build.\<close>

record poll_result =
  matched :: bool
  elapsed :: real
  polls :: int
  first_read :: "rule list option"
  first_read_elapsed :: "real option"

text \<open>The sleep at the end of a pass of \<open>poll_until_match\<close>.\<close>

definition sleep_cadence :: "real \<Rightarrow> world \<Rightarrow> world" where
  "sleep_cadence start w =
     (let current_age = now w - start in
      if current_age < EARLY_DENSE_SECONDS then sleep 1 w else sleep LATE_INTERVAL_SECONDS w)"

text \<open>The error codes \<open>poll_until_match\<close> tolerates right after a PUT.\<close>

definition tolerated_codes :: "string list" where
  "tolerated_codes = [''NoSuchLifecycleConfiguration'', ''NoSuchBucket'', ''AccessDenied'']"

text \<open>
  The loop of \<open>poll_until_match\<close>, with fuel. \<open>get_lifecycle\<close> reads \<open>resp["Rules"]\<close>,
  which raises \<open>KeyError\<close> when the key is missing; only \<open>ClientError\<close> is caught.
\<close>

fun poll_until_match_loop ::
    "nat \<Rightarrow> rule list \<Rightarrow> real \<Rightarrow> real \<Rightarrow> int \<Rightarrow> rule list option \<Rightarrow> real option \<Rightarrow> world
      \<Rightarrow> (exn + poll_result) option \<times> world" where
  "poll_until_match_loop 0 expected_config timeout_s start n first_snapshot first_snapshot_age w =
     (None, w)"
| "poll_until_match_loop (Suc fuel) expected_config timeout_s start n first_snapshot
       first_snapshot_age w =
     (let elapsed = now w - start in
      if elapsed > timeout_s then
        (Some (Inr \<lparr>matched = False, elapsed = elapsed, polls = n,
                     first_read = first_snapshot, first_read_elapsed = first_snapshot_age\<rparr>), w)
      else
        (case s3_get w of
           (Reply None, w1) \<Rightarrow> (Some (Inl (KeyError ''Rules'')), w1)
         | (Reply (Some current), w1) \<Rightarrow>
             (let n' = n + 1;
                  observed_age = now w1 - start;
                  first_snapshot' =
                    (if first_snapshot = None then Some current else first_snapshot);
                  first_snapshot_age' =
                    (if first_snapshot = None then Some observed_age else first_snapshot_age)
              in if equal_lifecycle current expected_config then
                   (Some (Inr \<lparr>matched = True, elapsed = observed_age, polls = n',
                                first_read = first_snapshot',
                                first_read_elapsed = first_snapshot_age'\<rparr>), w1)
                 else
                   poll_until_match_loop fuel expected_config timeout_s start n'
                     first_snapshot' first_snapshot_age' (sleep_cadence start w1))
         | (ClientError err, w1) \<Rightarrow>
             if err \<notin> set tolerated_codes
             then (Some (Inl (ClientErrorExn err)), w1)
             else
               poll_until_match_loop fuel expected_config timeout_s start n
                 first_snapshot first_snapshot_age (sleep_cadence start w1)
         | (OtherException msg, w1) \<Rightarrow> (Some (Inl (OtherExn msg)), w1)))"

definition poll_until_match ::
    "nat \<Rightarrow> rule list \<Rightarrow> real \<Rightarrow> world \<Rightarrow> (exn + poll_result) option \<times> world" where
  "poll_until_match fuel expected_config timeout_s w =
     poll_until_match_loop fuel expected_config timeout_s (now w) 0 None None w"

text \<open>
  The first snapshot among \<open>count\<close> GETs from the \<open>k\<close>-th on: what the first of
  them that answers with a configuration shows, \<open>None\<close> when none of them does.
\<close>

fun first_snapshot :: "(nat \<Rightarrow> real \<times> response) \<Rightarrow> nat \<Rightarrow> nat \<Rightarrow> rule list option" where
  "first_snapshot replies k 0 = None"
| "first_snapshot replies k (Suc count) =
     (case snd (replies k) of
        Reply (Some c) \<Rightarrow> Some c
      | Reply None \<Rightarrow> first_snapshot replies (Suc k) count
      | ClientError code \<Rightarrow> first_snapshot replies (Suc k) count
      | OtherException msg \<Rightarrow> first_snapshot replies (Suc k) count)"





section \<open>The concurrent racer\<close>






section \<open>Reading results, and concrete runs\<close>

text \<open>\<open>result[k]\<close> of what a probe returned; \<open>None\<close> when nothing or no such key.\<close>

definition field :: "(exn + pydict) option \<Rightarrow> string \<Rightarrow> pyval option" where
  "field res k = (case res of Some (Inr r) \<Rightarrow> map_of r k | Some (Inl e) \<Rightarrow> None | None \<Rightarrow> None)"

definition simulation_on :: simulation where
  "simulation_on = \<lparr>enable_simulation = True, sim_state = None\<rparr>"

definition simulation_off :: simulation where
  "simulation_off = \<lparr>enable_simulation = False, sim_state = None\<rparr>"

text \<open>
  A store that acknowledges every PUT at once and answers every GET at once with the
  configuration of test 0 of the strategy named; the random numbers are \<open>first\<close>, then
  \<open>second\<close>, then zeros.
\<close>

definition prompt_world :: "string \<Rightarrow> real \<Rightarrow> real \<Rightarrow> world" where
  "prompt_world strategy_name first second =
     \<lparr>now = 0,
      put_reply = (\<lambda>k. (0, None)),
      get_reply = (\<lambda>k. (0, Reply (Some (generate_lifecycle_config strategy_name 0)))),
      random_stream = (\<lambda>k. if k = 0 then first else if k = 1 then second else 0),
      puts_issued = 0, gets_issued = 0, randoms_drawn = 0\<rparr>"

text \<open>
  The simulator draws 0.5 and then 0, so its delay is \<open>uniform(48, 82)\<close> at 0: exactly
  48 seconds.
\<close>

definition world_delay_48 :: world where
  "world_delay_48 = prompt_world ''Baseline-3s-180s'' (1/2) 0"

text \<open>
  A store whose first GET fails with an error code outside the "not yet visible" class
  and whose later GETs show the expected configuration.
\<close>

definition world_internal_error :: world where
  "world_internal_error =
     (prompt_world ''Baseline-3s-180s'' 0 0)
       \<lparr>get_reply := (\<lambda>k. if k = 0 then (0, ClientError ''InternalError'')
                           else (0, Reply (Some (generate_lifecycle_config ''Baseline-3s-180s'' 0))))\<rparr>"

text \<open>A store whose PUT fails after a quarter of a second.\<close>

definition world_put_fails :: world where
  "world_put_fails =
     (prompt_world ''Baseline-3s-180s'' 0 0)\<lparr>put_reply := (\<lambda>k. (1/4, Some ''AccessDenied''))\<rparr>"

text \<open>
  A store whose GETs take 200 seconds and still show the previous configuration, the
  rule \<open>rule-old\<close>.
\<close>

definition world_slow_get :: world where
  "world_slow_get =
     (prompt_world ''Baseline-3s-180s'' 0 0)
       \<lparr>get_reply := (\<lambda>k. (200, Reply (Some (lifecycle_config 30 ''rule-old''))))\<rparr>"

text \<open>
  A store whose first GET reports that there is no lifecycle configuration yet, and
  whose later GETs show the expected configuration.
\<close>

definition world_not_yet_visible :: world where
  "world_not_yet_visible =
     (prompt_world ''Baseline-3s-180s'' 0 0)
       \<lparr>get_reply := (\<lambda>k. if k = 0 then (0, ClientError ''NoSuchLifecycleConfiguration'')
                           else (0, Reply (Some (generate_lifecycle_config ''Baseline-3s-180s'' 0))))\<rparr>"

text \<open>An adaptive strategy whose window is full: twenty samples, 1s to 20s.\<close>

definition adaptive_full_window :: adaptive_strategy where
  "adaptive_full_window =
     AdaptiveStrategy_init
       \<lparr>historical_times := [1, 2, 3, 4, 5, 6, 7, 8, 9, 10, 11, 12, 13, 14, 15, 16, 17, 18, 19, 20]\<rparr>"



section \<open>Properties of the policies\<close>

lemma clamp_max_min: "lo \<le> hi \<Longrightarrow> max lo (min x hi) = clamp x lo hi"
  by (simp add: clamp_def max_def min_def)

lemma Adaptive_timeout_spec:
  "Adaptive_timeout (AdaptiveStrategy_init\<lparr>historical_times := h\<rparr>) = spec_adaptive_timeout h"
proof -
  have "max 300 (min x 600) = clamp x 300 600" for x :: real
    by (rule clamp_max_min) simp
  then show ?thesis
    by (simp add: Adaptive_timeout_def spec_adaptive_timeout_def AdaptiveStrategy_init_def Let_def)
qed

lemma mean_40_50_60: "statistics_mean [40, 50, 60] = 50"
  by (simp add: statistics_mean_def)

lemma stdev_40_50_60: "statistics_stdev [40, 50, 60] = 10"
proof -
  have "statistics_stdev [40, 50, 60] = sqrt (10\<^sup>2)"
    by (simp add: statistics_stdev_def mean_40_50_60)
  also have "\<dots> = 10"
    by (simp only: real_sqrt_abs abs_numeral)
  finally show ?thesis .
qed

lemma spec_timeout_40_50_60: "spec_adaptive_timeout [40, 50, 60] = 300"
  by (simp add: spec_adaptive_timeout_def mean_40_50_60 stdev_40_50_60 clamp_def)

text \<open>
  Claim C3. For every call of the adaptive strategy's \<open>should_timeout\<close>, on an instance
  as its constructor and \<open>run_single_test\<close> leave it (only the history changes), the
  result is true iff the elapsed time has reached the timeout, where the timeout is 300
  with fewer than three historical samples and otherwise the mean plus three sample
  standard deviations clamped into [300, 600]; with history [40, 50, 60] the timeout
  is 300.
\<close>

theorem C3_adaptive_should_timeout:
  "Adaptive_should_timeout (AdaptiveStrategy_init\<lparr>historical_times := h\<rparr>) t k
     = (t \<ge> (if length h < 3 then 300
                     else clamp (statistics_mean h + 3 * statistics_stdev h) 300 600))
   \<and> Adaptive_timeout (AdaptiveStrategy_init\<lparr>historical_times := [40, 50, 60]\<rparr>) = 300
   \<and> Adaptive_should_timeout (AdaptiveStrategy_init\<lparr>historical_times := [40, 50, 60]\<rparr>) t k
     = (t \<ge> 300)"
proof -
  have a: "Adaptive_timeout (AdaptiveStrategy_init\<lparr>historical_times := h\<rparr>)
             = (if length h < 3 then 300
                else clamp (statistics_mean h + 3 * statistics_stdev h) 300 600)"
    by (simp only: Adaptive_timeout_spec spec_adaptive_timeout_def)
  have b: "Adaptive_timeout (AdaptiveStrategy_init\<lparr>historical_times := [40, 50, 60]\<rparr>) = 300"
    by (simp only: Adaptive_timeout_spec spec_timeout_40_50_60)
  show ?thesis
    unfolding Adaptive_should_timeout_def a b by simp
qed

text \<open>
  Claim C4, as stated: the adaptive schedule equals the hybrid schedule at every elapsed
  time. It fails between 120 and 180 seconds, where the adaptive strategy has a branch
  of its own.
\<close>

theorem C4_counterexample:
  "Adaptive_calculate_next_interval 150 0 \<noteq> Hybrid_calculate_next_interval 150 0"
  by (simp add: Adaptive_calculate_next_interval_def Hybrid_calculate_next_interval_def)

text \<open>
  Claim C4, amended. The hybrid schedule is 2s below 30s, 4s below 60s, 8s below 120s
  and 15s from 120s on; the adaptive schedule returns the same value at every elapsed
  time outside [120, 180), and 10s (where the hybrid one returns 15s) inside it.
\<close>

theorem C4_adaptive_interval_vs_hybrid:
  "Hybrid_calculate_next_interval t k
     = (if t < 30 then 2 else if t < 60 then 4 else if t < 120 then 8 else 15)
   \<and> Adaptive_calculate_next_interval t k
     = (if 120 \<le> t \<and> t < 180 then 10 else Hybrid_calculate_next_interval t k)"
  by (simp add: Adaptive_calculate_next_interval_def Hybrid_calculate_next_interval_def)

section \<open>Properties of a probe iteration\<close>

lemma str_int_0: "str_int 0 = ''0''"
  by (simp add: str_int_def str_nat.simps digit_char_def)

text \<open>
  What the polling loop returns is one of the two dictionaries of its return
  statements: after \<open>n\<close> further checks both counters have grown by \<open>n\<close>, the history
  by \<open>n\<close> entries, and \<open>propagation_time\<close> is the clock minus the loop's start.
\<close>

lemma poll_loop_shape:
  "poll_loop fuel pol tid cfg pd ps st sim w = (Some (Inr r), sim', w') \<Longrightarrow>
   \<exists>n t h.
     (r = [(''test_id'', PInt tid), (''success'', PBool False), (''error'', PStr ''Timeout''),
           (''put_duration'', PFloat pd), (''propagation_time'', PFloat t),
           (''check_count'', PInt (check_count st + int n)),
           (''api_calls'', PInt (api_calls st + int n)),
           (''polling_history'', PList (polling_history st @ h)),
           (''timestamp'', PTime (now w'))]
      \<or> r = [(''test_id'', PInt tid), (''success'', PBool True),
           (''put_duration'', PFloat pd), (''propagation_time'', PFloat t),
           (''check_count'', PInt (check_count st + int n)),
           (''api_calls'', PInt (api_calls st + int n)),
           (''polling_history'', PList (polling_history st @ h)),
           (''timestamp'', PTime (now w'))])
     \<and> length h = n \<and> t = now w' - ps"
proof (induction fuel arbitrary: st sim w)
  case 0
  then show ?case by simp
next
  case (Suc fuel)
  let ?elapsed = "now w - ps"
  show ?case
  proof (cases "should_timeout pol ?elapsed (check_count st)")
    case True
    with Suc.prems have "r = [(''test_id'', PInt tid), (''success'', PBool False), (''error'', PStr ''Timeout''),
           (''put_duration'', PFloat pd), (''propagation_time'', PFloat ?elapsed),
           (''check_count'', PInt (check_count st)),
           (''api_calls'', PInt (api_calls st)),
           (''polling_history'', PList (polling_history st)),
           (''timestamp'', PTime (now w))]" and "w' = w"
      by (auto simp: Let_def)
    then show ?thesis
      by (intro exI[of _ 0] exI[of _ ?elapsed] exI[of _ "[]"]) simp
  next
    case False
    let ?interval = "calculate_next_interval pol ?elapsed (check_count st)"
    from False Suc.prems have nonneg: "\<not> ?interval < 0"
      by (auto simp: Let_def split: if_splits)
    obtain cr sim2 w2 where chk0:
      "Simulated_check_configuration_match cfg sim (sleep ?interval w) = (cr, sim2, w2)"
      by (metis prod_cases3)
    from False nonneg chk0 Suc.prems obtain m where cr: "cr = Inr m"
      by (cases cr) (auto simp: Let_def)
    from chk0 cr have chk:
      "Simulated_check_configuration_match cfg sim (sleep ?interval w) = (Inr m, sim2, w2)"
      by simp
    let ?entry = "PDict [(''attempt'', PInt (check_count st + 1)),
                         (''elapsed_at_check'', PFloat (now w2 - ps)),
                         (''get_duration'', PFloat (now w2 - now (sleep ?interval w))),
                         (''matched'', PBool m)]"
    show ?thesis
    proof (cases m)
      case True
      with False nonneg chk Suc.prems have
        "r = [(''test_id'', PInt tid), (''success'', PBool True),
           (''put_duration'', PFloat pd), (''propagation_time'', PFloat (now w2 - ps)),
           (''check_count'', PInt (check_count st + 1)),
           (''api_calls'', PInt (api_calls st + 1)),
           (''polling_history'', PList (polling_history st @ [?entry])),
           (''timestamp'', PTime (now w2))]" and "w' = w2"
        by (auto simp: Let_def)
      then show ?thesis
        by (intro exI[of _ 1] exI[of _ "now w2 - ps"] exI[of _ "[?entry]"]) simp
    next
      case nomatch: False
      let ?st' = "\<lparr>check_count = check_count st + 1, api_calls = api_calls st + 1,
                    polling_history = polling_history st @ [?entry]\<rparr>"
      from False nonneg chk nomatch Suc.prems have
        "poll_loop fuel pol tid cfg pd ps ?st' sim2 w2 = (Some (Inr r), sim', w')"
        by (simp add: Let_def)
      from Suc.IH[OF this] obtain n t h where
        r: "r = [(''test_id'', PInt tid), (''success'', PBool False), (''error'', PStr ''Timeout''),
           (''put_duration'', PFloat pd), (''propagation_time'', PFloat t),
           (''check_count'', PInt (check_count ?st' + int n)),
           (''api_calls'', PInt (api_calls ?st' + int n)),
           (''polling_history'', PList (polling_history ?st' @ h)),
           (''timestamp'', PTime (now w'))]
      \<or> r = [(''test_id'', PInt tid), (''success'', PBool True),
           (''put_duration'', PFloat pd), (''propagation_time'', PFloat t),
           (''check_count'', PInt (check_count ?st' + int n)),
           (''api_calls'', PInt (api_calls ?st' + int n)),
           (''polling_history'', PList (polling_history ?st' @ h)),
           (''timestamp'', PTime (now w'))]" and h: "length h = n" and t: "t = now w' - ps"
        by blast
      show ?thesis
        using r h t
        by (intro exI[of _ "Suc n"] exI[of _ t] exI[of _ "?entry # h"]) (simp add: add.assoc)
    qed
  qed
qed

text \<open>The same for the whole probe, once the PUT is acknowledged.\<close>

lemma Base_run_single_test_shape:
  assumes run: "Base_run_single_test fuel pol name tid sim w = (Some (Inr r), sim', w')"
    and put: "put_reply w (puts_issued w) = (d, None)"
  shows "\<exists>n t h.
     (r = [(''test_id'', PInt tid), (''success'', PBool False), (''error'', PStr ''Timeout''),
           (''put_duration'', PFloat d), (''propagation_time'', PFloat t),
           (''check_count'', PInt (int n)),
           (''api_calls'', PInt (1 + int n)),
           (''polling_history'', PList h),
           (''timestamp'', PTime (now w'))]
      \<or> r = [(''test_id'', PInt tid), (''success'', PBool True),
           (''put_duration'', PFloat d), (''propagation_time'', PFloat t),
           (''check_count'', PInt (int n)),
           (''api_calls'', PInt (1 + int n)),
           (''polling_history'', PList h),
           (''timestamp'', PTime (now w'))])
     \<and> length h = n \<and> t = now w' - (now w + d)"
proof -
  let ?w1 = "w\<lparr>now := now w + d, puts_issued := Suc (puts_issued w)\<rparr>"
  from run put have
    "poll_loop fuel pol tid (generate_lifecycle_config name tid) d (now w + d)
       \<lparr>check_count = 0, api_calls = 1, polling_history = []\<rparr> sim ?w1 = (Some (Inr r), sim', w')"
    by (simp add: Base_run_single_test_def s3_put_def Let_def)
  from poll_loop_shape[OF this] show ?thesis
    by simp
qed

text \<open>When the PUT raises, the probe returns at once, whatever the fuel.\<close>

lemma Base_run_single_test_put_fails:
  assumes put: "put_reply w (puts_issued w) = (d, Some e)"
  shows "Base_run_single_test fuel pol name tid sim w =
     (Some (Inr [(''test_id'', PInt tid), (''success'', PBool False),
                 (''error'', PStr (''PUT failed: '' @ e)),
                 (''timestamp'', PTime (now w + d))]),
      sim, w\<lparr>now := now w + d, puts_issued := Suc (puts_issued w)\<rparr>)"
  using put by (simp add: Base_run_single_test_def s3_put_def Let_def)

text \<open>The definitions a concrete run unfolds.\<close>

lemmas run_defs =
  Simulated_run_single_test_def Base_run_single_test_def
  Baseline_policy_def BaselineStrategy_init_def
  Fixed_calculate_next_interval_def Fixed_should_timeout_def
  s3_put_def s3_get_def sleep_def random_random_def random_uniform_def
  generate_propagation_delay_def
  Simulated_check_configuration_match_def Base_check_configuration_match_def
  generate_lifecycle_config_def
  simulation_on_def simulation_off_def prompt_world_def field_def
  str_int_0 Let_def

text \<open>
  Claim C2. Every result of \<open>run_single_test\<close> that has an \<open>api_calls\<close> or a
  \<open>check_count\<close> field (every result but the one returned when the PUT fails, which
  has neither) has both, and \<open>api_calls\<close> is \<open>check_count + 1\<close>.
\<close>

theorem C2_api_calls:
  assumes run: "Base_run_single_test fuel pol name tid sim w = (Some (Inr r), sim', w')"
    and shaped: "map_of r ''api_calls'' \<noteq> None \<or> map_of r ''check_count'' \<noteq> None"
  shows "\<exists>k. map_of r ''check_count'' = Some (PInt k)
           \<and> map_of r ''api_calls'' = Some (PInt (k + 1))"
proof (cases "put_reply w (puts_issued w)")
  case (Pair d e)
  show ?thesis
  proof (cases e)
    case None
    with Pair have "put_reply w (puts_issued w) = (d, None)" by simp
    from Base_run_single_test_shape[OF run this] show ?thesis
      by auto
  next
    case (Some msg)
    with Pair have "put_reply w (puts_issued w) = (d, Some msg)" by simp
    from Base_run_single_test_put_fails[OF this, of fuel pol name tid sim] run shaped
    show ?thesis by auto
  qed
qed

theorem C2_api_calls_witness:
  "Base_run_single_test 1 (Baseline_policy BaselineStrategy_init) ''Baseline-3s-180s'' 0
     simulation_off (prompt_world ''Baseline-3s-180s'' 0 0)
   = (Some (Inr
        [(''test_id'', PInt 0), (''success'', PBool True), (''put_duration'', PFloat 0),
         (''propagation_time'', PFloat 3), (''check_count'', PInt 1), (''api_calls'', PInt 2),
         (''polling_history'',
            PList [PDict [(''attempt'', PInt 1), (''elapsed_at_check'', PFloat 3),
                          (''get_duration'', PFloat 0), (''matched'', PBool True)]]),
         (''timestamp'', PTime 3)]),
      simulation_off,
      (prompt_world ''Baseline-3s-180s'' 0 0)\<lparr>now := 3, puts_issued := 1, gets_issued := 1\<rparr>)
   \<and> (\<exists>k. Some (PInt 1) = Some (PInt k) \<and> Some (PInt 2) = Some (PInt (k + 1)))"
proof -
  let ?r = "[(''test_id'', PInt 0), (''success'', PBool True), (''put_duration'', PFloat 0),
         (''propagation_time'', PFloat 3), (''check_count'', PInt 1), (''api_calls'', PInt 2),
         (''polling_history'',
            PList [PDict [(''attempt'', PInt 1), (''elapsed_at_check'', PFloat 3),
                          (''get_duration'', PFloat 0), (''matched'', PBool True)]]),
         (''timestamp'', PTime 3)]"
  have run: "Base_run_single_test 1 (Baseline_policy BaselineStrategy_init) ''Baseline-3s-180s'' 0
     simulation_off (prompt_world ''Baseline-3s-180s'' 0 0)
   = (Some (Inr ?r), simulation_off,
      (prompt_world ''Baseline-3s-180s'' 0 0)\<lparr>now := 3, puts_issued := 1, gets_issued := 1\<rparr>)"
    by (simp add: run_defs)
  have "map_of ?r ''api_calls'' \<noteq> None \<or> map_of ?r ''check_count'' \<noteq> None"
    by simp
  from C2_api_calls[OF run this] run show ?thesis
    by simp
qed

text \<open>
  Claim C10. When the PUT raises, \<open>run_single_test\<close> returns at once (whatever the
  fuel) the dictionary with \<open>test_id\<close>, \<open>success = False\<close>, the error message and the
  timestamp: no GET is issued, the simulator's state is untouched, the clock has moved
  by the PUT alone, and the result has none of \<open>put_duration\<close>, \<open>propagation_time\<close>,
  \<open>check_count\<close>, \<open>api_calls\<close> and \<open>polling_history\<close>.
\<close>

theorem C10_put_failure:
  assumes put: "put_reply w (puts_issued w) = (d, Some e)"
  shows "\<exists>r w'.
     Base_run_single_test fuel pol name tid sim w = (Some (Inr r), sim, w')
     \<and> r = [(''test_id'', PInt tid), (''success'', PBool False),
            (''error'', PStr (''PUT failed: '' @ e)), (''timestamp'', PTime (now w + d))]
     \<and> gets_issued w' = gets_issued w \<and> randoms_drawn w' = randoms_drawn w
     \<and> now w' = now w + d
     \<and> map_of r ''put_duration'' = None \<and> map_of r ''propagation_time'' = None
     \<and> map_of r ''check_count'' = None \<and> map_of r ''api_calls'' = None
     \<and> map_of r ''polling_history'' = None"
  by (simp add: Base_run_single_test_put_fails[OF put])

theorem C10_put_failure_witness:
  "put_reply world_put_fails (puts_issued world_put_fails) = (1/4, Some ''AccessDenied'')
   \<and> fst (Base_run_single_test 0 (Baseline_policy BaselineStrategy_init)
                ''Baseline-3s-180s'' 0 simulation_on world_put_fails)
       = Some (Inr [(''test_id'', PInt 0), (''success'', PBool False),
                    (''error'', PStr ''PUT failed: AccessDenied''),
                    (''timestamp'', PTime (1/4))])"
proof -
  have put: "put_reply world_put_fails (puts_issued world_put_fails) = (1/4, Some ''AccessDenied'')"
    by (simp add: world_put_fails_def prompt_world_def)
  have "now world_put_fails = 0"
    by (simp add: world_put_fails_def prompt_world_def)
  with C10_put_failure[OF put, of 0 "Baseline_policy BaselineStrategy_init"
      "''Baseline-3s-180s''" 0 simulation_on] put
  show ?thesis by auto
qed

text \<open>
  Claim C5, as stated: \<open>propagation_time\<close> is defined iff \<open>success\<close> is true, and a
  timed-out result carries none. A probe of the baseline strategy whose only check
  takes 200 seconds and still sees the previous configuration times out at 203 seconds,
  and its result stores that time.
\<close>

theorem C5_counterexample:
  "field (fst (Base_run_single_test 2 (Baseline_policy BaselineStrategy_init)
                 ''Baseline-3s-180s'' 0 simulation_on world_slow_get)) ''success''
     = Some (PBool False)
   \<and> field (fst (Base_run_single_test 2 (Baseline_policy BaselineStrategy_init)
                 ''Baseline-3s-180s'' 0 simulation_on world_slow_get)) ''error''
     = Some (PStr ''Timeout'')
   \<and> field (fst (Base_run_single_test 2 (Baseline_policy BaselineStrategy_init)
                 ''Baseline-3s-180s'' 0 simulation_on world_slow_get)) ''propagation_time''
     = Some (PFloat 203)"
  by (simp add: run_defs world_slow_get_def lifecycle_config_def eval_nat_numeral)

text \<open>
  Claim C5, amended. In every result of \<open>run_single_test\<close>, \<open>propagation_time\<close> is
  defined iff the PUT was acknowledged: a successful result has it, and so has a
  timed-out one, where it is the elapsed time at which the timeout was declared (the
  clock at the return minus the clock at the acknowledgement). Only the result of a
  failed PUT has no \<open>propagation_time\<close>.
\<close>

theorem C5_propagation_time_defined:
  assumes run: "Base_run_single_test fuel pol name tid sim w = (Some (Inr r), sim', w')"
    and put: "put_reply w (puts_issued w) = (d, e)"
  shows "((\<exists>t. map_of r ''propagation_time'' = Some (PFloat t)) = (e = None))
     \<and> (map_of r ''propagation_time'' = None) = (e \<noteq> None)
     \<and> (if map_of r ''success'' = Some (PBool True)
         then map_of r ''propagation_time'' = Some (PFloat (now w' - (now w + d)))
         else if map_of r ''error'' = Some (PStr ''Timeout'')
         then map_of r ''propagation_time'' = Some (PFloat (now w' - (now w + d)))
         else map_of r ''propagation_time'' = None \<and> e \<noteq> None)"
proof (cases e)
  case None
  with put have "put_reply w (puts_issued w) = (d, None)" by simp
  from Base_run_single_test_shape[OF run this] None show ?thesis
    by auto
next
  case (Some msg)
  with put have "put_reply w (puts_issued w) = (d, Some msg)" by simp
  from Base_run_single_test_put_fails[OF this, of fuel pol name tid sim] run Some
  show ?thesis by auto
qed

theorem C5_propagation_time_defined_witness:
  "Base_run_single_test 2 (Baseline_policy BaselineStrategy_init) ''Baseline-3s-180s'' 0
     simulation_on world_slow_get
   = (Some (Inr
        [(''test_id'', PInt 0), (''success'', PBool False), (''error'', PStr ''Timeout''),
         (''put_duration'', PFloat 0), (''propagation_time'', PFloat 203),
         (''check_count'', PInt 1), (''api_calls'', PInt 2),
         (''polling_history'',
            PList [PDict [(''attempt'', PInt 1), (''elapsed_at_check'', PFloat 203),
                          (''get_duration'', PFloat 200), (''matched'', PBool False)]]),
         (''timestamp'', PTime 203)]),
      \<lparr>enable_simulation = True, sim_state = Some (0, 3)\<rparr>,
      world_slow_get\<lparr>now := 203, puts_issued := 1, gets_issued := 1, randoms_drawn := 2\<rparr>)
   \<and> put_reply world_slow_get (puts_issued world_slow_get) = (0, None)
   \<and> (\<exists>t. Some (PFloat 203) = Some (PFloat t))"
proof -
  let ?r = "[(''test_id'', PInt 0), (''success'', PBool False), (''error'', PStr ''Timeout''),
         (''put_duration'', PFloat 0), (''propagation_time'', PFloat 203),
         (''check_count'', PInt 1), (''api_calls'', PInt 2),
         (''polling_history'',
            PList [PDict [(''attempt'', PInt 1), (''elapsed_at_check'', PFloat 203),
                          (''get_duration'', PFloat 200), (''matched'', PBool False)]]),
         (''timestamp'', PTime 203)]"
  have run: "Base_run_single_test 2 (Baseline_policy BaselineStrategy_init) ''Baseline-3s-180s'' 0
     simulation_on world_slow_get
   = (Some (Inr ?r), \<lparr>enable_simulation = True, sim_state = Some (0, 3)\<rparr>,
      world_slow_get\<lparr>now := 203, puts_issued := 1, gets_issued := 1, randoms_drawn := 2\<rparr>)"
    by (simp add: run_defs world_slow_get_def lifecycle_config_def eval_nat_numeral)
  have put: "put_reply world_slow_get (puts_issued world_slow_get) = (0, None)"
    by (simp add: world_slow_get_def prompt_world_def)
  from C5_propagation_time_defined[OF run put] run put show ?thesis
    by simp
qed

text \<open>
  The baseline strategy against a simulated delay of exactly 48 seconds, with a store
  that answers at once: the simulator's clock starts at the first check, three seconds
  after the PUT, so the sixteen checks up to 48s still wait and the seventeenth, at
  51s, is the first to reach the store.
\<close>

lemma baseline_delay_48_run:
  "\<exists>r sim' w'.
     Simulated_run_single_test (17 + n) (Baseline_policy BaselineStrategy_init)
       ''Baseline-3s-180s'' 0 simulation_on world_delay_48 = (Some (Inr r), sim', w')
     \<and> map_of r ''success'' = Some (PBool True)
     \<and> map_of r ''check_count'' = Some (PInt 17)
     \<and> map_of r ''propagation_time'' = Some (PFloat 51)
     \<and> sim_state sim' = Some (48, 3)
     \<and> gets_issued w' = 1"
  by (simp add: run_defs world_delay_48_def eval_nat_numeral)

text \<open>
  Claim C8, as stated: the run yields \<open>check_count = 16\<close> and a \<open>propagation_time\<close> in
  [48, 51). It yields 17 and 51.
\<close>

theorem C8_counterexample:
  "field (fst (Simulated_run_single_test 17 (Baseline_policy BaselineStrategy_init)
                 ''Baseline-3s-180s'' 0 simulation_on world_delay_48)) ''check_count''
     = Some (PInt 17)
   \<and> field (fst (Simulated_run_single_test 17 (Baseline_policy BaselineStrategy_init)
                 ''Baseline-3s-180s'' 0 simulation_on world_delay_48)) ''propagation_time''
     = Some (PFloat 51)
   \<and> field (fst (Simulated_run_single_test 17 (Baseline_policy BaselineStrategy_init)
                 ''Baseline-3s-180s'' 0 simulation_on world_delay_48)) ''check_count''
     \<noteq> Some (PInt 16)
   \<and> \<not> (51 < (51 :: real))"
  using baseline_delay_48_run[of 0] by (auto simp: field_def)

text \<open>
  Claim C8, amended. Running the baseline strategy (interval 3s, timeout 180s) against
  a simulated delay of exactly 48s, where sleeps last exactly their interval and the
  store acknowledges and answers at once with the expected configuration, yields, for
  any fuel of at least 17 passes, exactly one result, with \<open>success = True\<close>,
  \<open>check_count = 17\<close> and \<open>propagation_time = 51\<close>; the simulator has drawn the delay 48
  and counts it from the first check, at 3s; one GET reached the store.
\<close>

theorem C8_baseline_delay_48:
  "\<exists>r sim' w'.
     Simulated_run_single_test (17 + n) (Baseline_policy BaselineStrategy_init)
       ''Baseline-3s-180s'' 0 simulation_on world_delay_48 = (Some (Inr r), sim', w')
     \<and> map_of r ''success'' = Some (PBool True)
     \<and> map_of r ''check_count'' = Some (PInt 17)
     \<and> map_of r ''propagation_time'' = Some (PFloat 51)
     \<and> sim_state sim' = Some (48, 3)
     \<and> gets_issued w' = 1"
  by (rule baseline_delay_48_run)

section \<open>Properties of the coverage analysis\<close>

lemma sorted_distribution: "sort_key snd distribution = distribution"
  by (simp add: distribution_def)

lemma display_coverage_analysis_table:
  "display_coverage_analysis ts mt =
     (let timeout = strategy_timeout_of ts mt in
      if timeout < 48 then
        Inr \<lparr>strategy_timeout = timeout, coverage = ''Below P50'', expected_success = None,
             low_coverage_warning = False, too_short_warning = True\<rparr>
      else if timeout < 82 then covered timeout ''P50'' 50
      else if timeout < 120 then covered timeout ''P75'' 75
      else if timeout < 142 then covered timeout ''P85'' 85
      else if timeout < 156 then covered timeout ''P90'' 90
      else if timeout < 234 then covered timeout ''P95'' 95
      else if timeout < 312 then covered timeout ''P99'' 99
      else covered timeout ''Max'' 99.9)"
  unfolding display_coverage_analysis_def sorted_distribution
  by (simp add: distribution_def coverage_step_def covered_def strategy_timeout_of_def Let_def
      split: option.splits)

text \<open>
  Claim C6. For every timeout the instance is configured with that reaches the first
  bucket (48s), the coverage analysis reports the label of the bucket of the fixed
  table with the largest seconds value not above the timeout, the success rate the
  specification maps that label to, and the low-coverage warning iff that rate is below
  95; with a timeout of 150s it reports P90 and 90.0, with the warning.
\<close>

theorem C6_coverage_selection:
  assumes reach: "48 \<le> strategy_timeout_of ts mt"
  shows "(\<exists>label v rate.
            display_coverage_analysis ts mt =
              Inr \<lparr>strategy_timeout = strategy_timeout_of ts mt, coverage = label,
                   expected_success = Some rate, low_coverage_warning = (rate < 95),
                   too_short_warning = False\<rparr>
          \<and> map_of distribution label = Some v
          \<and> v \<le> strategy_timeout_of ts mt
          \<and> (\<forall>(l, v') \<in> set distribution. v' \<le> strategy_timeout_of ts mt \<longrightarrow> v' \<le> v)
          \<and> map_of spec_success_rate label = Some rate)
       \<and> display_coverage_analysis (Some 150) mt =
            Inr \<lparr>strategy_timeout = 150, coverage = ''P90'', expected_success = Some 90,
                 low_coverage_warning = True, too_short_warning = False\<rparr>"
proof
  let ?T = "strategy_timeout_of ts mt"
  let ?P = "\<lambda>label v rate.
            display_coverage_analysis ts mt =
              Inr \<lparr>strategy_timeout = ?T, coverage = label,
                   expected_success = Some rate, low_coverage_warning = (rate < 95),
                   too_short_warning = False\<rparr>
          \<and> map_of distribution label = Some v
          \<and> v \<le> ?T
          \<and> (\<forall>(l, v') \<in> set distribution. v' \<le> ?T \<longrightarrow> v' \<le> v)
          \<and> map_of spec_success_rate label = Some rate"
  consider "?T < 82" | "82 \<le> ?T" "?T < 120" | "120 \<le> ?T" "?T < 142"
    | "142 \<le> ?T" "?T < 156" | "156 \<le> ?T" "?T < 234" | "234 \<le> ?T" "?T < 312"
    | "312 \<le> ?T"
    by linarith
  then show "\<exists>label v rate. ?P label v rate"
  proof cases
    case 1
    with reach have "?P ''P50'' 48 50"
      by (simp add: display_coverage_analysis_table covered_def distribution_def
          spec_success_rate_def Let_def)
    then show ?thesis by blast
  next
    case 2
    then have "?P ''P75'' 82 75"
      by (simp add: display_coverage_analysis_table covered_def distribution_def
          spec_success_rate_def Let_def)
    then show ?thesis by blast
  next
    case 3
    then have "?P ''P85'' 120 85"
      by (simp add: display_coverage_analysis_table covered_def distribution_def
          spec_success_rate_def Let_def)
    then show ?thesis by blast
  next
    case 4
    then have "?P ''P90'' 142 90"
      by (simp add: display_coverage_analysis_table covered_def distribution_def
          spec_success_rate_def Let_def)
    then show ?thesis by blast
  next
    case 5
    then have "?P ''P95'' 156 95"
      by (simp add: display_coverage_analysis_table covered_def distribution_def
          spec_success_rate_def Let_def)
    then show ?thesis by blast
  next
    case 6
    then have "?P ''P99'' 234 99"
      by (simp add: display_coverage_analysis_table covered_def distribution_def
          spec_success_rate_def Let_def)
    then show ?thesis by blast
  next
    case 7
    then have "?P ''Max'' 312 99.9"
      by (simp add: display_coverage_analysis_table covered_def distribution_def
          spec_success_rate_def Let_def)
    then show ?thesis by blast
  qed
next
  show "display_coverage_analysis (Some 150) mt =
            Inr \<lparr>strategy_timeout = 150, coverage = ''P90'', expected_success = Some 90,
                 low_coverage_warning = True, too_short_warning = False\<rparr>"
    by (simp add: display_coverage_analysis_table covered_def strategy_timeout_of_def Let_def)
qed

theorem C6_coverage_selection_witness:
  "48 \<le> strategy_timeout_of (Some 180) None
   \<and> display_coverage_analysis (Some 180) None =
       Inr \<lparr>strategy_timeout = 180, coverage = ''P95'', expected_success = Some 95,
            low_coverage_warning = False, too_short_warning = False\<rparr>
   \<and> display_coverage_analysis (Some 150) None =
       Inr \<lparr>strategy_timeout = 150, coverage = ''P90'', expected_success = Some 90,
            low_coverage_warning = True, too_short_warning = False\<rparr>"
proof -
  have reach: "48 \<le> strategy_timeout_of (Some 180) None"
    by (simp add: strategy_timeout_of_def)
  have "display_coverage_analysis (Some 180) None =
       Inr \<lparr>strategy_timeout = 180, coverage = ''P95'', expected_success = Some 95,
            low_coverage_warning = False, too_short_warning = False\<rparr>"
    by (simp add: display_coverage_analysis_table covered_def strategy_timeout_of_def Let_def)
  with C6_coverage_selection[OF reach] reach show ?thesis
    by simp
qed

section \<open>Properties of the adaptive strategy's history window\<close>

lemma Adaptive_timeout_at_least_min: "min_timeout a \<le> Adaptive_timeout a"
  by (simp add: Adaptive_timeout_def Let_def)

lemma Adaptive_no_timeout_before_300:
  "t < 300 \<Longrightarrow>
   \<not> Adaptive_should_timeout (AdaptiveStrategy_init\<lparr>historical_times := h\<rparr>) t k"
  using Adaptive_timeout_at_least_min[of "AdaptiveStrategy_init\<lparr>historical_times := h\<rparr>"]
  by (simp add: Adaptive_should_timeout_def AdaptiveStrategy_init_def)

text \<open>
  Every result of the inherited probe stores a boolean under \<open>success\<close>, and a float
  under \<open>propagation_time\<close> when that boolean is true.
\<close>

lemma Simulated_run_single_test_success:
  assumes run: "Simulated_run_single_test fuel pol name tid sim w = (Some (Inr r), sim', w')"
  shows "(map_of r ''success'' = Some (PBool True)
            \<and> (\<exists>t. map_of r ''propagation_time'' = Some (PFloat t)))
       \<or> map_of r ''success'' = Some (PBool False)"
proof (cases "put_reply w (puts_issued w)")
  case (Pair d e)
  from run have base:
    "Base_run_single_test fuel pol name tid (sim\<lparr>sim_state := None\<rparr>) w = (Some (Inr r), sim', w')"
    by (simp add: Simulated_run_single_test_def)
  show ?thesis
  proof (cases e)
    case None
    with Pair have "put_reply w (puts_issued w) = (d, None)" by simp
    from Base_run_single_test_shape[OF base this] show ?thesis
      by auto
  next
    case (Some msg)
    with Pair have "put_reply w (puts_issued w) = (d, Some msg)" by simp
    from Base_run_single_test_put_fails[OF this, of fuel pol name tid "sim\<lparr>sim_state := None\<rparr>"] base
    show ?thesis by auto
  qed
qed

text \<open>What one adaptive probe does to the strategy.\<close>

lemma Adaptive_run_single_test_window:
  assumes run: "Adaptive_run_single_test fuel a name tid sim w = (res, a', sim', w')"
  shows "min_timeout a' = min_timeout a \<and> max_timeout a' = max_timeout a
       \<and> history_size a' = history_size a
       \<and> (if field res ''success'' = Some (PBool True)
           then \<exists>t. field res ''propagation_time'' = Some (PFloat t)
                  \<and> historical_times a' =
                      (if length (historical_times a) < history_size a
                       then historical_times a @ [t]
                       else tl (historical_times a @ [t]))
           else historical_times a' = historical_times a)"
proof (cases "Simulated_run_single_test fuel (Adaptive_policy a) name tid sim w")
  case (fields res0 sim0 w0)
  show ?thesis
  proof (cases res0)
    case None
    with fields run show ?thesis
      by (auto simp: Adaptive_run_single_test_def field_def)
  next
    case (Some v)
    show ?thesis
    proof (cases v)
      case (Inl e)
      with Some fields run show ?thesis
        by (auto simp: Adaptive_run_single_test_def field_def)
    next
      case (Inr r)
      with Some fields have
        "Simulated_run_single_test fuel (Adaptive_policy a) name tid sim w = (Some (Inr r), sim0, w0)"
        by simp
      from Simulated_run_single_test_success[OF this]
      consider t where "map_of r ''success'' = Some (PBool True)"
          "map_of r ''propagation_time'' = Some (PFloat t)"
        | "map_of r ''success'' = Some (PBool False)"
        by blast
      then show ?thesis
      proof cases
        case 1
        with Inr Some fields run show ?thesis
          by (auto simp: Adaptive_run_single_test_def field_def Let_def)
      next
        case 2
        with Inr Some fields run show ?thesis
          by (auto simp: Adaptive_run_single_test_def field_def)
      qed
    qed
  qed
qed

lemma Adaptive_run_single_test_capacity:
  assumes run: "Adaptive_run_single_test fuel a name tid sim w = (res, a', sim', w')"
    and cap: "length (historical_times a) \<le> history_size a"
  shows "length (historical_times a') \<le> history_size a' \<and> history_size a' = history_size a"
proof (cases "field res ''success'' = Some (PBool True)")
  case True
  with Adaptive_run_single_test_window[OF run] obtain t where
    size: "history_size a' = history_size a"
    and window: "historical_times a' =
                   (if length (historical_times a) < history_size a
                    then historical_times a @ [t]
                    else tl (historical_times a @ [t]))"
    by auto
  have "length (historical_times a') \<le> history_size a"
  proof (cases "length (historical_times a) < history_size a")
    case True
    with window show ?thesis by simp
  next
    case False
    with window have "length (historical_times a') = length (historical_times a)" by simp
    with cap show ?thesis by simp
  qed
  with size show ?thesis by simp
next
  case False
  with Adaptive_run_single_test_window[OF run] cap show ?thesis by simp
qed

lemma Adaptive_run_tests_capacity:
  "Adaptive_run_tests fuel name ids results a sim w = (res, a', sim', w') \<Longrightarrow>
   length (historical_times a) \<le> history_size a \<Longrightarrow>
   length (historical_times a') \<le> history_size a' \<and> history_size a' = history_size a"
proof (induction ids arbitrary: results a sim w)
  case Nil
  then show ?case by simp
next
  case (Cons i rest)
  obtain r1 a1 sim1 w1 where one:
    "Adaptive_run_single_test fuel a name i sim w = (r1, a1, sim1, w1)"
    by (metis prod_cases4)
  from Adaptive_run_single_test_capacity[OF one Cons.prems(2)]
  have cap1: "length (historical_times a1) \<le> history_size a1"
    and size1: "history_size a1 = history_size a"
    by simp_all
  show ?case
  proof (cases r1)
    case None
    with one Cons.prems(1) cap1 size1 show ?thesis by auto
  next
    case (Some v)
    show ?thesis
    proof (cases v)
      case (Inl e)
      with Some one Cons.prems(1) cap1 size1 show ?thesis by auto
    next
      case (Inr result)
      with Some one Cons.prems(1) have
        "Adaptive_run_tests fuel name rest (results @ [result]) a1 sim1 (sleep 2 w1)
           = (res, a', sim', w')"
        by simp
      from Cons.IH[OF this cap1] size1 show ?thesis by simp
    qed
  qed
qed

text \<open>
  Claim C9. A probe of the adaptive strategy leaves a window that was within its capacity
  within its capacity, and never changes the capacity (20 from the constructor on);
  the window changes only when the probe's result is successful, and then by appending
  that result's \<open>propagation_time\<close> and, if the window was full, dropping its oldest
  sample; so over any run of the test suite from a fresh instance the window never
  holds more than 20 samples.
\<close>

theorem C9_history_window:
  assumes run: "Adaptive_run_single_test fuel a name tid sim w = (res, a', sim', w')"
    and cap: "length (historical_times a) \<le> history_size a"
    and pos: "0 < history_size a"
  shows "length (historical_times a') \<le> history_size a'
       \<and> history_size a' = history_size a
       \<and> (if field res ''success'' = Some (PBool True)
           then \<exists>t. field res ''propagation_time'' = Some (PFloat t)
                  \<and> historical_times a' =
                      (if length (historical_times a) < history_size a
                       then historical_times a @ [t]
                       else tl (historical_times a) @ [t])
           else historical_times a' = historical_times a)
       \<and> history_size AdaptiveStrategy_init = 20
       \<and> historical_times AdaptiveStrategy_init = []
       \<and> length (historical_times
            (fst (snd (Adaptive_run_tests fuel name ids [] AdaptiveStrategy_init sim w)))) \<le> 20"
proof -
  have nonempty: "historical_times a \<noteq> []" if "\<not> length (historical_times a) < history_size a"
    using that pos by auto
  have window: "if field res ''success'' = Some (PBool True)
           then \<exists>t. field res ''propagation_time'' = Some (PFloat t)
                  \<and> historical_times a' =
                      (if length (historical_times a) < history_size a
                       then historical_times a @ [t]
                       else tl (historical_times a) @ [t])
           else historical_times a' = historical_times a"
    using Adaptive_run_single_test_window[OF run] nonempty
    by (auto split: if_splits)
  obtain r2 a2 sim2 w2 where suite:
    "Adaptive_run_tests fuel name ids [] AdaptiveStrategy_init sim w = (r2, a2, sim2, w2)"
    by (metis prod_cases4)
  have "length (historical_times AdaptiveStrategy_init) \<le> history_size AdaptiveStrategy_init"
    by (simp add: AdaptiveStrategy_init_def)
  from Adaptive_run_tests_capacity[OF suite this]
  have "length (historical_times a2) \<le> 20"
    by (simp add: AdaptiveStrategy_init_def)
  with suite Adaptive_run_single_test_capacity[OF run cap] window show ?thesis
    by (simp add: AdaptiveStrategy_init_def)
qed

theorem C9_history_window_witness:
  "Adaptive_run_single_test 1 adaptive_full_window ''Adaptive-Learning-v2'' 0 simulation_on
       (prompt_world ''Adaptive-Learning-v2'' 0 0)
     = (Some (Inr
          [(''test_id'', PInt 0), (''success'', PBool True), (''put_duration'', PFloat 0),
           (''propagation_time'', PFloat 2), (''check_count'', PInt 1), (''api_calls'', PInt 2),
           (''polling_history'',
              PList [PDict [(''attempt'', PInt 1), (''elapsed_at_check'', PFloat 2),
                            (''get_duration'', PFloat 0), (''matched'', PBool True)]]),
           (''timestamp'', PTime 2)]),
        AdaptiveStrategy_init
          \<lparr>historical_times :=
             [2, 3, 4, 5, 6, 7, 8, 9, 10, 11, 12, 13, 14, 15, 16, 17, 18, 19, 20, 2]\<rparr>,
        \<lparr>enable_simulation = True, sim_state = Some (0, 2)\<rparr>,
        (prompt_world ''Adaptive-Learning-v2'' 0 0)
          \<lparr>now := 2, puts_issued := 1, gets_issued := 1, randoms_drawn := 2\<rparr>)
   \<and> length (historical_times adaptive_full_window) \<le> history_size adaptive_full_window
   \<and> 0 < history_size adaptive_full_window
   \<and> length [2, 3, 4, 5, 6, 7, 8, 9, 10, 11, 12, 13, 14, 15, 16, 17, 18, 19, 20, 2 :: real]
       \<le> history_size adaptive_full_window"
proof -
  have run: "Adaptive_run_single_test 1 adaptive_full_window ''Adaptive-Learning-v2'' 0 simulation_on
       (prompt_world ''Adaptive-Learning-v2'' 0 0)
     = (Some (Inr
          [(''test_id'', PInt 0), (''success'', PBool True), (''put_duration'', PFloat 0),
           (''propagation_time'', PFloat 2), (''check_count'', PInt 1), (''api_calls'', PInt 2),
           (''polling_history'',
              PList [PDict [(''attempt'', PInt 1), (''elapsed_at_check'', PFloat 2),
                            (''get_duration'', PFloat 0), (''matched'', PBool True)]]),
           (''timestamp'', PTime 2)]),
        AdaptiveStrategy_init
          \<lparr>historical_times :=
             [2, 3, 4, 5, 6, 7, 8, 9, 10, 11, 12, 13, 14, 15, 16, 17, 18, 19, 20, 2]\<rparr>,
        \<lparr>enable_simulation = True, sim_state = Some (0, 2)\<rparr>,
        (prompt_world ''Adaptive-Learning-v2'' 0 0)
          \<lparr>now := 2, puts_issued := 1, gets_issued := 1, randoms_drawn := 2\<rparr>)"
    by (simp add: Adaptive_run_single_test_def adaptive_full_window_def Adaptive_policy_def
        Adaptive_calculate_next_interval_def Adaptive_no_timeout_before_300 run_defs)
      (simp add: AdaptiveStrategy_init_def)
  have cap: "length (historical_times adaptive_full_window) \<le> history_size adaptive_full_window"
    and pos: "0 < history_size adaptive_full_window"
    by (simp_all add: adaptive_full_window_def AdaptiveStrategy_init_def)
  from C9_history_window[OF run cap pos] run cap pos show ?thesis
    by (simp add: adaptive_full_window_def AdaptiveStrategy_init_def)
qed

section \<open>Failing checks\<close>

text \<open>A check whose GET fails raises \<open>AttributeError\<close>, whatever the error.\<close>

lemma Base_check_failure:
  assumes get: "get_reply w (gets_issued w) = (d, r)" and failure: "is_failure r"
  shows "Base_check_configuration_match cfg w =
           (Inl AttributeError, w\<lparr>now := now w + d, gets_issued := Suc (gets_issued w)\<rparr>)"
  using get failure
  by (cases r)
    (simp_all add: Base_check_configuration_match_def s3_get_def s3_client_exception_names_def)

text \<open>
  So does the pass of the polling loop that issues it: with the simulation off, or on
  with its delay over when the check is made, nothing is recorded and the exception
  leaves the loop.
\<close>

lemma poll_loop_failing_get:
  assumes get: "get_reply w (gets_issued w) = (d, r)" and failure: "is_failure r"
    and going: "\<not> should_timeout pol (now w - ps) (check_count st)"
    and interval: "calculate_next_interval pol (now w - ps) (check_count st) = i" "0 \<le> i"
    and reaches: "\<not> enable_simulation sim
                  \<or> (\<exists>delay s. sim_state sim = Some (delay, s) \<and> delay \<le> now w + i - s)"
  shows "poll_loop (Suc fuel) pol tid cfg pd ps st sim w =
           (Some (Inl AttributeError), sim,
            w\<lparr>now := now w + i + d, gets_issued := Suc (gets_issued w)\<rparr>)"
proof -
  have get': "get_reply (sleep i w) (gets_issued (sleep i w)) = (d, r)"
    using get by (simp add: sleep_def)
  have "Simulated_check_configuration_match cfg sim (sleep i w) =
          (Inl AttributeError, sim, w\<lparr>now := now w + i + d, gets_issued := Suc (gets_issued w)\<rparr>)"
    using reaches Base_check_failure[OF get' failure, of cfg]
    by (auto simp: Simulated_check_configuration_match_def sleep_def Let_def)
  with going interval show ?thesis
    by (simp add: Let_def)
qed

text \<open>
  The exceptions that leave the polling loop are the one of a failing check and the one
  of a negative sleep.
\<close>

lemma Simulated_check_raises:
  "Simulated_check_configuration_match cfg sim w = (Inl e, sim', w') \<Longrightarrow> e = AttributeError"
  by (auto simp: Simulated_check_configuration_match_def Base_check_configuration_match_def
      Let_def split: if_splits prod.splits option.splits response.splits)

lemma poll_loop_raises:
  "poll_loop fuel pol tid cfg pd ps st sim w = (Some (Inl e), sim', w') \<Longrightarrow>
   e = ValueError \<or> e = AttributeError"
proof (induction fuel arbitrary: st sim w)
  case 0
  then show ?case by simp
next
  case (Suc fuel)
  then show ?case
    by (auto simp: Let_def split: if_splits prod.splits sum.splits dest: Simulated_check_raises)
qed

text \<open>
  Claim C1, at a failing check. The claim has a check that fails with the "not yet
  visible" error recorded as a non-matching attempt, the loop going on, and a check that
  fails with another error end the iteration. In the probe of the waiter framework, run
  by the baseline strategy with its simulated delay at zero, a first check that finds no
  lifecycle configuration yet raises \<open>AttributeError\<close> out of \<open>run_single_test\<close>, for
  any fuel: no attempt is recorded and no result is returned, although the next GET
  would have shown the expected configuration. A check failing with \<open>InternalError\<close>
  ends the same way. On the same store the standalone \<open>poll_until_match\<close> swallows the
  error and returns its match at the second GET.
\<close>

theorem C1_not_yet_visible_check_raises:
  "get_reply world_not_yet_visible 0 = (0, ClientError ''NoSuchLifecycleConfiguration'')
   \<and> Simulated_run_single_test (1 + n) (Baseline_policy BaselineStrategy_init)
         ''Baseline-3s-180s'' 0 simulation_on world_not_yet_visible
       = (Some (Inl AttributeError),
          \<lparr>enable_simulation = True, sim_state = Some (0, 3)\<rparr>,
          world_not_yet_visible
            \<lparr>now := 3, puts_issued := 1, gets_issued := 1, randoms_drawn := 2\<rparr>)
   \<and> fst (Simulated_run_single_test (1 + n) (Baseline_policy BaselineStrategy_init)
             ''Baseline-3s-180s'' 0 simulation_on world_internal_error)
       = Some (Inl AttributeError)
   \<and> fst (poll_until_match 2 (generate_lifecycle_config ''Baseline-3s-180s'' 0) 600
             world_not_yet_visible)
       = Some (Inr \<lparr>matched = True, elapsed = 1, polls = 1,
                    first_read = Some (generate_lifecycle_config ''Baseline-3s-180s'' 0),
                    first_read_elapsed = Some 1\<rparr>)"
proof (intro conjI)
  show "get_reply world_not_yet_visible 0 = (0, ClientError ''NoSuchLifecycleConfiguration'')"
    by (simp add: world_not_yet_visible_def prompt_world_def)
next
  show "Simulated_run_single_test (1 + n) (Baseline_policy BaselineStrategy_init)
         ''Baseline-3s-180s'' 0 simulation_on world_not_yet_visible
       = (Some (Inl AttributeError),
          \<lparr>enable_simulation = True, sim_state = Some (0, 3)\<rparr>,
          world_not_yet_visible
            \<lparr>now := 3, puts_issued := 1, gets_issued := 1, randoms_drawn := 2\<rparr>)"
    by (simp add: run_defs world_not_yet_visible_def s3_client_exception_names_def)
next
  show "fst (Simulated_run_single_test (1 + n) (Baseline_policy BaselineStrategy_init)
             ''Baseline-3s-180s'' 0 simulation_on world_internal_error)
       = Some (Inl AttributeError)"
    by (simp add: run_defs world_internal_error_def s3_client_exception_names_def)
next
  show "fst (poll_until_match 2 (generate_lifecycle_config ''Baseline-3s-180s'' 0) 600
             world_not_yet_visible)
       = Some (Inr \<lparr>matched = True, elapsed = 1, polls = 1,
                    first_read = Some (generate_lifecycle_config ''Baseline-3s-180s'' 0),
                    first_read_elapsed = Some 1\<rparr>)"
    by (simp add: poll_until_match_def world_not_yet_visible_def prompt_world_def
        tolerated_codes_def equal_lifecycle_def sleep_cadence_def EARLY_DENSE_SECONDS_def
        LATE_INTERVAL_SECONDS_def s3_get_def sleep_def eval_nat_numeral Let_def)
qed

section \<open>What the racer and the sequential test record\<close>










end
